theory Spec2Isabelle
  imports Complex_Main "HOL-Library.Word"
begin

section \<open>SceneManager.cpp: data model\<close>

text \<open>
  The model follows \<^verbatim>\<open>7-1_FinalProjectMilestones/Source/SceneManager.cpp\<close>.
  A C++ \<^verbatim>\<open>float\<close> is represented by the real number it denotes. The modelled code
  stores, copies and forwards such values; the only arithmetic on them happens inside
  GLM, which is an external library and enters \<open>SetTransformations\<close> as a parameter.
  A \<^verbatim>\<open>std::string\<close> is a \<open>string\<close>, and \<^verbatim>\<open>a.compare(b) == 0\<close> is equality.
\<close>

type_synonym float = real
type_synonym vec2 = "float \<times> float"
type_synonym vec3 = "float \<times> float \<times> float"
type_synonym vec4 = "float \<times> float \<times> float \<times> float"

text \<open>
  \<^verbatim>\<open>OBJECT_MATERIAL\<close>: the fields assigned in \<open>DefineObjectMaterials\<close>. The field
  \<^verbatim>\<open>tag\<close> is called \<open>material_tag\<close> here, since \<^verbatim>\<open>TEXTURE_INFO\<close> has a field of the same
  name.
\<close>

record OBJECT_MATERIAL =
  ambientColor :: vec3
  ambientStrength :: float
  diffuseColor :: vec3
  specularColor :: vec3
  shininess :: float
  material_tag :: string

text \<open>
  \<^verbatim>\<open>TEXTURE_INFO\<close>: one entry of the texture table. \<open>ID\<close> receives a \<^verbatim>\<open>GLuint\<close>
  (line 129) and its address is passed to \<^verbatim>\<open>glGenTextures\<close> (line 168), so it is an
  unsigned 32-bit integer.
\<close>

record TEXTURE_INFO =
  ID :: "32 word"
  tag :: string

text \<open>
  A \<^verbatim>\<open>glm::mat4\<close> is four columns of four floats. The GLM functions that
  \<open>SetTransformations\<close> calls belong to an external library; they are the fields of a
  parameter record, and \<open>mat4_mul\<close> is \<^verbatim>\<open>operator*\<close> on \<^verbatim>\<open>glm::mat4\<close>.
\<close>

type_synonym mat4 = "vec4 \<times> vec4 \<times> vec4 \<times> vec4"

record glm =
  glm_scale :: "vec3 \<Rightarrow> mat4"
  glm_rotate :: "float \<Rightarrow> vec3 \<Rightarrow> mat4"
  glm_translate :: "vec3 \<Rightarrow> mat4"
  glm_radians :: "float \<Rightarrow> float"
  mat4_mul :: "mat4 \<Rightarrow> mat4 \<Rightarrow> mat4"

text \<open>
  The shader interface (\<^verbatim>\<open>ShaderManager\<close>) is external. What the scene manager does to
  it is the sequence of uniform setters it calls, each with the uniform's name and the
  value. A \<^verbatim>\<open>bool\<close> passed to \<^verbatim>\<open>setIntValue\<close> is converted to 0 or 1.
\<close>

datatype uniform_write =
    setMat4Value string mat4
  | setIntValue string int
  | setBoolValue string bool
  | setFloatValue string float
  | setVec2Value string vec2
  | setVec3Value string vec3
  | setVec4Value string vec4
  | setSampler2DValue string int

text \<open>The calls made on \<^verbatim>\<open>m_basicMeshes\<close> by \<open>PrepareScene\<close>.\<close>

datatype mesh_call = LoadPlaneMesh | LoadBoxMesh | LoadCylinderMesh | LoadSphereMesh

text \<open>
  The OpenGL context is external as well. The model keeps the sequence of texture calls
  issued. \<open>glGenTextures n\<close> stands for \<^verbatim>\<open>glGenTextures(1, &x)\<close> and records the name
  \<open>n\<close> that the call stored in \<open>x\<close>; \<open>glActiveTexture i\<close> stands for
  \<^verbatim>\<open>glActiveTexture(GL_TEXTURE0 + i)\<close>. \<open>glDeleteTextures\<close> is the deletion entry
  point of the same interface; no function of this file calls it.
\<close>

datatype gl_enum =
    GL_TEXTURE_2D | GL_TEXTURE_WRAP_S | GL_TEXTURE_WRAP_T
  | GL_TEXTURE_MIN_FILTER | GL_TEXTURE_MAG_FILTER | GL_REPEAT | GL_LINEAR
  | GL_RGB8 | GL_RGB | GL_RGBA8 | GL_RGBA | GL_UNSIGNED_BYTE

datatype gl_call =
    glGenTextures "32 word"
  | glBindTexture gl_enum "32 word"
  | glTexParameteri gl_enum gl_enum gl_enum
  | glTexImage2D gl_enum int gl_enum int int int gl_enum gl_enum "8 word list"
  | glGenerateMipmap gl_enum
  | glActiveTexture int
  | glDeleteTextures "32 word"

text \<open>
  Which names \<^verbatim>\<open>glGenTextures\<close> hands out is the driver's choice: \<open>gl_names k\<close> is the
  name returned by the \<open>k\<close>-th call, and \<open>gl_generated\<close> counts the calls so far.
\<close>

record gl_context =
  gl_calls :: "gl_call list"
  gl_names :: "nat \<Rightarrow> 32 word"
  gl_generated :: nat

text \<open>
  What \<^verbatim>\<open>stbi_load\<close> yields for a file: \<open>None\<close> for a null pointer, otherwise the
  decoded image with the three values written through the pointer arguments.
\<close>

record image =
  width :: int
  height :: int
  colorChannels :: int
  pixels :: "8 word list"

type_synonym decoder = "string \<Rightarrow> image option"

text \<open>
  The members of \<^verbatim>\<open>SceneManager\<close> that the file uses, and the OpenGL context it acts on.
  \<open>m_pShaderManager\<close> is \<open>None\<close> for a null pointer and otherwise holds the uniform
  writes received so far. \<open>m_textureIDs\<close> is a fixed-size array: the list never changes
  its length, and an access outside it is an error of the model (undefined behaviour
  in C++). \<open>m_loadedTextures\<close> is an \<^verbatim>\<open>int\<close>; it stays far below \<open>2 ^ 31\<close> because the
  array access next to each increment fails first.
\<close>

record SceneManager =
  m_pShaderManager :: "uniform_write list option"
  m_basicMeshes :: "mesh_call list"
  m_loadedTextures :: int
  m_textureIDs :: "TEXTURE_INFO list"
  m_objectMaterials :: "OBJECT_MATERIAL list"
  gl :: gl_context

datatype error = NullPointerDereference | ArrayIndexOutOfBounds int

definition and_then :: "error + 'a \<Rightarrow> ('a \<Rightarrow> error + 'b) \<Rightarrow> error + 'b" where
  "and_then m f = (case m of Inl e \<Rightarrow> Inl e | Inr x \<Rightarrow> f x)"

text \<open>
  Modelled from the spec: the declaration of \<^verbatim>\<open>m_textureIDs\<close> is in SceneManager.h,
  which is not among the sources. The spec gives 16 texture units, and the comment of
  \<open>BindGLTextures\<close> says that there are up to 16 slots.
\<close>

definition MAX_TEXTURES :: nat where
  "MAX_TEXTURES = 16"

text \<open>
  The constructor of this file assigns neither \<open>m_loadedTextures\<close> nor the table; the
  spec calls the state before any registration the initial empty state, which is what
  the first conjuncts below say. The last one is the size of the array.
\<close>

definition empty_registry :: "SceneManager \<Rightarrow> bool" where
  "empty_registry st \<longleftrightarrow>
     m_loadedTextures st = 0 \<and> m_objectMaterials st = [] \<and>
     length (m_textureIDs st) = MAX_TEXTURES"

text \<open>The registered entries: the first \<open>m_loadedTextures\<close> elements of the array.\<close>

definition registered :: "SceneManager \<Rightarrow> TEXTURE_INFO list" where
  "registered st = take (nat (m_loadedTextures st)) (m_textureIDs st)"

text \<open>The tags of the registered entries, in slot order.\<close>

definition texture_tags :: "SceneManager \<Rightarrow> string list" where
  "texture_tags st = map tag (registered st)"

definition texture_at :: "SceneManager \<Rightarrow> int \<Rightarrow> error + TEXTURE_INFO" where
  "texture_at st i =
     (if 0 \<le> i \<and> i < int (length (m_textureIDs st)) then Inr (m_textureIDs st ! nat i)
      else Inl (ArrayIndexOutOfBounds i))"

definition gl_issue :: "gl_call \<Rightarrow> SceneManager \<Rightarrow> SceneManager" where
  "gl_issue c st = st\<lparr>gl := (gl st)\<lparr>gl_calls := gl_calls (gl st) @ [c]\<rparr>\<rparr>"

definition gl_gen :: "SceneManager \<Rightarrow> 32 word \<times> SceneManager" where
  "gl_gen st =
     (let n = gl_names (gl st) (gl_generated (gl st))
      in (n, st\<lparr>gl := (gl st)\<lparr>gl_calls := gl_calls (gl st) @ [glGenTextures n],
                              gl_generated := gl_generated (gl st) + 1\<rparr>\<rparr>))"

text \<open>A call through \<^verbatim>\<open>m_pShaderManager->\<close>.\<close>

definition shader_call :: "uniform_write \<Rightarrow> SceneManager \<Rightarrow> error + SceneManager" where
  "shader_call w st =
     (case m_pShaderManager st of
        None \<Rightarrow> Inl NullPointerDereference
      | Some ws \<Rightarrow> Inr (st\<lparr>m_pShaderManager := Some (ws @ [w])\<rparr>))"

fun shader_calls :: "uniform_write list \<Rightarrow> SceneManager \<Rightarrow> error + SceneManager" where
  "shader_calls [] st = Inr st"
| "shader_calls (w # ws) st = and_then (shader_call w st) (shader_calls ws)"

section \<open>FindMaterial\<close>

text \<open>
  The \<^verbatim>\<open>while\<close> loop of \<open>FindMaterial\<close> (lines 239 to 252). The state of the loop is
  \<open>index\<close>, \<open>bFound\<close> and the output parameter \<open>material\<close>, which the caller passes by
  reference. On a match the loop copies three fields and sets \<open>bFound\<close>; otherwise it
  advances \<open>index\<close>. \<open>index\<close> starts at 0 and only grows, so it is a \<open>nat\<close>.
\<close>

function FindMaterial_loop ::
  "OBJECT_MATERIAL list \<Rightarrow> string \<Rightarrow> nat \<Rightarrow> bool \<Rightarrow> OBJECT_MATERIAL
     \<Rightarrow> nat \<times> bool \<times> OBJECT_MATERIAL" where
  "FindMaterial_loop ms t index bFound material =
     (if index < length ms \<and> bFound = False then
        (if material_tag (ms ! index) = t then
           FindMaterial_loop ms t index True
             (material\<lparr>diffuseColor := diffuseColor (ms ! index),
                       specularColor := specularColor (ms ! index),
                       shininess := shininess (ms ! index)\<rparr>)
         else FindMaterial_loop ms t (index + 1) bFound material)
      else (index, bFound, material))"
  by pat_completeness auto
termination
  by (relation "measure (\<lambda>(ms, t, index, bFound, material).
        2 * (length ms - index) + (if bFound then 0 else 1))") auto

text \<open>
  \<open>FindMaterial st t material\<close> returns the \<^verbatim>\<open>bool\<close> result together with the contents of
  the output parameter afterwards. The loop runs on \<open>m_objectMaterials\<close>, a
  \<^verbatim>\<open>std::vector\<close>, and reads it only below its size.
\<close>

definition FindMaterial ::
  "SceneManager \<Rightarrow> string \<Rightarrow> OBJECT_MATERIAL \<Rightarrow> bool \<times> OBJECT_MATERIAL" where
  "FindMaterial st t material =
     (if length (m_objectMaterials st) = 0 then (False, material)
      else (case FindMaterial_loop (m_objectMaterials st) t 0 False material of
              (index, bFound, material') \<Rightarrow> (True, material')))"

section \<open>The texture table\<close>

text \<open>
  \<open>CreateGLTexture\<close> (lines 76 to 140), with \<^verbatim>\<open>stbi_load\<close> as a parameter. The result
  is the \<^verbatim>\<open>bool\<close> returned and the state afterwards. The branch for an unsupported
  channel count returns after the texture object has been generated, bound and
  configured. Registration writes the entry at index \<open>m_loadedTextures\<close> with no
  comparison against the size of the array. Output to \<^verbatim>\<open>std::cout\<close> is not modelled.
\<close>

text \<open>
  \<open>register_texture\<close> is the common tail of the two supported branches (lines 121 to
  133): mipmaps, unbinding, the write of the entry and the increment.
\<close>

definition register_texture :: "32 word \<Rightarrow> string \<Rightarrow> SceneManager \<Rightarrow> error + bool \<times> SceneManager" where
  "register_texture textureID t st =
     (let st1 = gl_issue (glBindTexture GL_TEXTURE_2D 0) (gl_issue (glGenerateMipmap GL_TEXTURE_2D) st);
          n = m_loadedTextures st1
      in if 0 \<le> n \<and> n < int (length (m_textureIDs st1)) then
           Inr (True, st1\<lparr>m_textureIDs :=
                             (m_textureIDs st1)[nat n := (m_textureIDs st1 ! nat n)\<lparr>ID := textureID, tag := t\<rparr>],
                          m_loadedTextures := n + 1\<rparr>)
         else Inl (ArrayIndexOutOfBounds n))"

definition CreateGLTexture ::
  "decoder \<Rightarrow> string \<Rightarrow> string \<Rightarrow> SceneManager \<Rightarrow> error + bool \<times> SceneManager" where
  "CreateGLTexture stbi_load filename t st =
     (case stbi_load filename of
        None \<Rightarrow> Inr (False, st)
      | Some img \<Rightarrow>
          (case gl_gen st of
             (textureID, st1) \<Rightarrow>
               (let st2 = gl_issue (glTexParameteri GL_TEXTURE_2D GL_TEXTURE_MAG_FILTER GL_LINEAR)
                         (gl_issue (glTexParameteri GL_TEXTURE_2D GL_TEXTURE_MIN_FILTER GL_LINEAR)
                         (gl_issue (glTexParameteri GL_TEXTURE_2D GL_TEXTURE_WRAP_T GL_REPEAT)
                         (gl_issue (glTexParameteri GL_TEXTURE_2D GL_TEXTURE_WRAP_S GL_REPEAT)
                         (gl_issue (glBindTexture GL_TEXTURE_2D textureID) st1))))
                in if colorChannels img = 3 then
                     register_texture textureID t
                       (gl_issue (glTexImage2D GL_TEXTURE_2D 0 GL_RGB8 (width img) (height img) 0
                                    GL_RGB GL_UNSIGNED_BYTE (pixels img)) st2)
                   else if colorChannels img = 4 then
                     register_texture textureID t
                       (gl_issue (glTexImage2D GL_TEXTURE_2D 0 GL_RGBA8 (width img) (height img) 0
                                    GL_RGBA GL_UNSIGNED_BYTE (pixels img)) st2)
                   else Inr (False, st2))))"

text \<open>\<open>BindGLTextures\<close> (lines 148 to 156): the \<^verbatim>\<open>for\<close> loop from \<open>i\<close> on.\<close>

function BindGLTextures_loop :: "SceneManager \<Rightarrow> int \<Rightarrow> error + SceneManager" where
  "BindGLTextures_loop st i =
     (if i < m_loadedTextures st then
        (case texture_at st i of
           Inl e \<Rightarrow> Inl e
         | Inr entry \<Rightarrow>
             BindGLTextures_loop
               (gl_issue (glBindTexture GL_TEXTURE_2D (ID entry)) (gl_issue (glActiveTexture i) st))
               (i + 1))
      else Inr st)"
  by pat_completeness auto
termination
  by (relation "measure (\<lambda>(st, i). nat (m_loadedTextures st - i))") (auto simp: gl_issue_def)

definition BindGLTextures :: "SceneManager \<Rightarrow> error + SceneManager" where
  "BindGLTextures st = BindGLTextures_loop st 0"

text \<open>
  \<open>DestroyGLTextures\<close> (lines 164 to 170): each iteration passes the address of the
  entry's \<open>ID\<close> to \<^verbatim>\<open>glGenTextures\<close>, which stores a generated name there.
\<close>

function DestroyGLTextures_loop :: "SceneManager \<Rightarrow> int \<Rightarrow> error + SceneManager" where
  "DestroyGLTextures_loop st i =
     (if i < m_loadedTextures st then
        (if 0 \<le> i \<and> i < int (length (m_textureIDs st)) then
           (case gl_gen st of
              (n, st1) \<Rightarrow>
                DestroyGLTextures_loop
                  (st1\<lparr>m_textureIDs := (m_textureIDs st1)[nat i := (m_textureIDs st1 ! nat i)\<lparr>ID := n\<rparr>]\<rparr>)
                  (i + 1))
         else Inl (ArrayIndexOutOfBounds i))
      else Inr st)"
  by pat_completeness auto
termination
  by (relation "measure (\<lambda>(st, i). nat (m_loadedTextures st - i))") (auto simp: gl_gen_def Let_def)

definition DestroyGLTextures :: "SceneManager \<Rightarrow> error + SceneManager" where
  "DestroyGLTextures st = DestroyGLTextures_loop st 0"

text \<open>
  \<open>FindTextureID\<close> and \<open>FindTextureSlot\<close> (lines 178 to 222). The loop state is the
  result variable, \<open>index\<close> and \<open>bFound\<close>. \<open>FindTextureID\<close> converts the unsigned \<open>ID\<close>
  to \<^verbatim>\<open>int\<close>.
\<close>

function FindTextureID_loop :: "SceneManager \<Rightarrow> string \<Rightarrow> int \<Rightarrow> int \<Rightarrow> bool \<Rightarrow> error + int" where
  "FindTextureID_loop st t textureID index bFound =
     (if index < m_loadedTextures st \<and> bFound = False then
        (case texture_at st index of
           Inl e \<Rightarrow> Inl e
         | Inr entry \<Rightarrow>
             if tag entry = t then FindTextureID_loop st t (sint (ID entry)) index True
             else FindTextureID_loop st t textureID (index + 1) bFound)
      else Inr textureID)"
  by pat_completeness auto
termination
  by (relation "measure (\<lambda>(st, t, textureID, index, bFound).
        2 * nat (m_loadedTextures st - index) + (if bFound then 0 else 1))") auto

definition FindTextureID :: "SceneManager \<Rightarrow> string \<Rightarrow> error + int" where
  "FindTextureID st t = FindTextureID_loop st t (- 1) 0 False"

function FindTextureSlot_loop :: "SceneManager \<Rightarrow> string \<Rightarrow> int \<Rightarrow> int \<Rightarrow> bool \<Rightarrow> error + int" where
  "FindTextureSlot_loop st t textureSlot index bFound =
     (if index < m_loadedTextures st \<and> bFound = False then
        (case texture_at st index of
           Inl e \<Rightarrow> Inl e
         | Inr entry \<Rightarrow>
             if tag entry = t then FindTextureSlot_loop st t index index True
             else FindTextureSlot_loop st t textureSlot (index + 1) bFound)
      else Inr textureSlot)"
  by pat_completeness auto
termination
  by (relation "measure (\<lambda>(st, t, textureSlot, index, bFound).
        2 * nat (m_loadedTextures st - index) + (if bFound then 0 else 1))") auto

definition FindTextureSlot :: "SceneManager \<Rightarrow> string \<Rightarrow> error + int" where
  "FindTextureSlot st t = FindTextureSlot_loop st t (- 1) 0 False"

section \<open>Transformations and shader uniforms\<close>

text \<open>
  \<open>SetTransformations\<close> (lines 263 to 293). \<^verbatim>\<open>operator*\<close> associates to the left.
\<close>

definition SetTransformations ::
  "glm \<Rightarrow> vec3 \<Rightarrow> float \<Rightarrow> float \<Rightarrow> float \<Rightarrow> vec3 \<Rightarrow> SceneManager \<Rightarrow> error + SceneManager" where
  "SetTransformations g scaleXYZ XrotationDegrees YrotationDegrees ZrotationDegrees positionXYZ st =
     (let scale = glm_scale g scaleXYZ;
          rotationX = glm_rotate g (glm_radians g XrotationDegrees) (1, 0, 0);
          rotationY = glm_rotate g (glm_radians g YrotationDegrees) (0, 1, 0);
          rotationZ = glm_rotate g (glm_radians g ZrotationDegrees) (0, 0, 1);
          translation = glm_translate g positionXYZ;
          modelView = mat4_mul g (mat4_mul g (mat4_mul g (mat4_mul g translation rotationZ) rotationY)
                                   rotationX) scale
      in if m_pShaderManager st \<noteq> None then shader_call (setMat4Value ''model'' modelView) st
         else Inr st)"

text \<open>\<open>SetShaderColor\<close> (lines 301 to 320).\<close>

definition SetShaderColor :: "float \<Rightarrow> float \<Rightarrow> float \<Rightarrow> float \<Rightarrow> SceneManager \<Rightarrow> error + SceneManager" where
  "SetShaderColor redColorValue greenColorValue blueColorValue alphaValue st =
     (let currentColor = (redColorValue, greenColorValue, blueColorValue, alphaValue)
      in if m_pShaderManager st \<noteq> None then
           and_then (shader_call (setIntValue ''bUseTexture'' 0) st)
             (shader_call (setVec4Value ''objectColor'' currentColor))
         else Inr st)"

text \<open>\<open>SetShaderTexture\<close> (lines 328 to 339).\<close>

definition SetShaderTexture :: "string \<Rightarrow> SceneManager \<Rightarrow> error + SceneManager" where
  "SetShaderTexture textureTag st =
     (if m_pShaderManager st \<noteq> None then
        and_then (shader_call (setIntValue ''bUseTexture'' 1) st) (\<lambda>st1.
        and_then (FindTextureSlot st1 textureTag) (\<lambda>textureID.
        shader_call (setSampler2DValue ''objectTexture'' textureID) st1))
      else Inr st)"

text \<open>\<open>SetTextureUVScale\<close> (lines 347 to 353).\<close>

definition SetTextureUVScale :: "float \<Rightarrow> float \<Rightarrow> SceneManager \<Rightarrow> error + SceneManager" where
  "SetTextureUVScale u v st =
     (if m_pShaderManager st \<noteq> None then shader_call (setVec2Value ''UVscale'' (u, v)) st
      else Inr st)"

text \<open>
  \<open>SetShaderMaterial\<close> (lines 361 to 377). The local \<^verbatim>\<open>OBJECT_MATERIAL material\<close> is not
  initialised; \<open>material0\<close> is the value it happens to hold. The three setters are called
  through \<open>m_pShaderManager\<close> with no test of the pointer.
\<close>

definition SetShaderMaterial :: "OBJECT_MATERIAL \<Rightarrow> string \<Rightarrow> SceneManager \<Rightarrow> error + SceneManager" where
  "SetShaderMaterial material0 materialTag st =
     (if length (m_objectMaterials st) > 0 then
        (case FindMaterial st materialTag material0 of
           (bReturn, material) \<Rightarrow>
             if bReturn = True then
               shader_calls
                 [setVec3Value ''material.diffuseColor'' (diffuseColor material),
                  setVec3Value ''material.specularColor'' (specularColor material),
                  setFloatValue ''material.shininess'' (shininess material)] st
             else Inr st)
      else Inr st)"

section \<open>Preparing the scene\<close>

text \<open>\<open>DefineObjectMaterials\<close> (lines 388 to 433): four \<^verbatim>\<open>push_back\<close> calls.\<close>

definition stoneMAT :: OBJECT_MATERIAL where
  "stoneMAT = \<lparr>ambientColor = (0.4, 0.4, 0.4), ambientStrength = 1.0,
               diffuseColor = (0.8, 0.8, 0.8), specularColor = (0.4, 0.4, 0.4),
               shininess = 5.0, material_tag = ''stoneMAT''\<rparr>"

definition metalMAT :: OBJECT_MATERIAL where
  "metalMAT = \<lparr>ambientColor = (0.1, 0.1, 0.1), ambientStrength = 1.0,
               diffuseColor = (0.4, 0.4, 0.4), specularColor = (0.8, 0.8, 0.8),
               shininess = 15.0, material_tag = ''metalMAT''\<rparr>"

definition woodMaterial :: OBJECT_MATERIAL where
  "woodMaterial = \<lparr>ambientColor = (0.3, 0.25, 0.1), ambientStrength = 0.8,
                   diffuseColor = (0.6, 0.5, 0.2), specularColor = (0.1, 0.2, 0.2),
                   shininess = 5.0, material_tag = ''woodMAT''\<rparr>"

definition rubberMaterial :: OBJECT_MATERIAL where
  "rubberMaterial = \<lparr>ambientColor = (0.05, 0.05, 0.05), ambientStrength = 0.6,
                     diffuseColor = (0.1, 0.1, 0.1), specularColor = (0.05, 0.05, 0.05),
                     shininess = 1.0, material_tag = ''rubberMAT''\<rparr>"

definition DefineObjectMaterials :: "SceneManager \<Rightarrow> SceneManager" where
  "DefineObjectMaterials st =
     st\<lparr>m_objectMaterials :=
          (((m_objectMaterials st @ [stoneMAT]) @ [metalMAT]) @ [woodMaterial]) @ [rubberMaterial]\<rparr>"

text \<open>
  \<open>SetupSceneLights\<close> (lines 437 to 463): eleven calls through \<open>m_pShaderManager\<close>, none
  of them guarded.
\<close>

definition SetupSceneLights :: "SceneManager \<Rightarrow> error + SceneManager" where
  "SetupSceneLights st =
     shader_calls
       [setBoolValue ''bUseLighting'' True,
        setVec3Value ''pointLights[0].position'' (16.0, 25.0, 1.5),
        setVec3Value ''pointLights[0].ambient'' (0.35, 0.35, 0.35),
        setVec3Value ''pointLights[0].diffuse'' (0.7, 0.7, 0.8),
        setVec3Value ''pointLights[0].specular'' (0.5, 0.5, 0.6),
        setBoolValue ''pointLights[0].bActive'' True,
        setVec3Value ''pointLights[1].position'' (- 14.0, 25.0, - 10.0),
        setVec3Value ''pointLights[1].ambient'' (0.35, 0.35, 0.35),
        setVec3Value ''pointLights[1].diffuse'' (0.7, 0.7, 0.8),
        setVec3Value ''pointLights[1].specular'' (0.5, 0.5, 0.6),
        setBoolValue ''pointLights[1].bActive'' True] st"

text \<open>
  \<open>LoadSceneTextures\<close> (lines 467 to 496): seven registrations, whose results are
  assigned to \<open>bReturn\<close> and never read, then \<open>BindGLTextures\<close>.
\<close>

definition LoadSceneTextures :: "decoder \<Rightarrow> SceneManager \<Rightarrow> error + SceneManager" where
  "LoadSceneTextures stbi_load st =
     and_then (CreateGLTexture stbi_load ''textures/asphalt-floor.png'' ''floor'' st) (\<lambda>(bReturn, st).
     and_then (CreateGLTexture stbi_load ''textures/concrete-stones.png'' ''atlas-stone'' st) (\<lambda>(bReturn, st).
     and_then (CreateGLTexture stbi_load ''textures/concrete-walls.png'' ''walls'' st) (\<lambda>(bReturn, st).
     and_then (CreateGLTexture stbi_load ''textures/rubber-bench.png'' ''bench'' st) (\<lambda>(bReturn, st).
     and_then (CreateGLTexture stbi_load ''textures/metal-beams.png'' ''metal'' st) (\<lambda>(bReturn, st).
     and_then (CreateGLTexture stbi_load ''textures/wood-base.png'' ''wood'' st) (\<lambda>(bReturn, st).
     and_then (CreateGLTexture stbi_load ''textures/dumbbells.png'' ''dbell'' st) (\<lambda>(bReturn, st).
     BindGLTextures st)))))))"

text \<open>\<open>PrepareScene\<close> (lines 504 to 520).\<close>

definition PrepareScene :: "decoder \<Rightarrow> SceneManager \<Rightarrow> error + SceneManager" where
  "PrepareScene stbi_load st =
     and_then (LoadSceneTextures stbi_load st) (\<lambda>st.
     and_then (SetupSceneLights (DefineObjectMaterials st)) (\<lambda>st.
     Inr (st\<lparr>m_basicMeshes := m_basicMeshes st @
               [LoadPlaneMesh, LoadBoxMesh, LoadCylinderMesh, LoadSphereMesh]\<rparr>)))"

text \<open>
  A sequence of registrations, as \<open>LoadSceneTextures\<close> performs them: each pair is a
  file name and a tag, and the results are collected in order.
\<close>

fun register_all :: "decoder \<Rightarrow> (string \<times> string) list \<Rightarrow> SceneManager \<Rightarrow> error + bool list \<times> SceneManager" where
  "register_all stbi_load [] st = Inr ([], st)"
| "register_all stbi_load ((filename, t) # rest) st =
     and_then (CreateGLTexture stbi_load filename t st) (\<lambda>(bReturn, st1).
     and_then (register_all stbi_load rest st1) (\<lambda>(bs, st2). Inr (bReturn # bs, st2)))"

section \<open>Observations on a state\<close>

text \<open>The tags of the material table, in order, and the handles of the registered textures.\<close>

definition material_tags :: "SceneManager \<Rightarrow> string list" where
  "material_tags st = map material_tag (m_objectMaterials st)"

definition texture_IDs :: "SceneManager \<Rightarrow> 32 word list" where
  "texture_IDs st = map ID (registered st)"

text \<open>
  The point lights that the shader interface has been told are active: the comment in
  \<open>SetupSceneLights\<close> allows up to four light sources, \<open>pointLights[0]\<close> to
  \<open>pointLights[3]\<close>, and a light is active when its \<open>bActive\<close> uniform has been set to
  \<^verbatim>\<open>true\<close>.
\<close>

definition bActive_uniforms :: "string list" where
  "bActive_uniforms = [''pointLights[0].bActive'', ''pointLights[1].bActive'',
                       ''pointLights[2].bActive'', ''pointLights[3].bActive'']"

definition active_point_lights :: "SceneManager \<Rightarrow> string list" where
  "active_point_lights st =
     (case m_pShaderManager st of
        None \<Rightarrow> []
      | Some ws \<Rightarrow> filter (\<lambda>n. setBoolValue n True \<in> set ws) bActive_uniforms)"

text \<open>The OpenGL calls issued between two states.\<close>

definition gl_calls_since :: "SceneManager \<Rightarrow> SceneManager \<Rightarrow> gl_call list" where
  "gl_calls_since st st' = drop (length (gl_calls (gl st))) (gl_calls (gl st'))"

text \<open>The file names and tags that \<open>LoadSceneTextures\<close> registers, in its order.\<close>

definition scene_textures :: "(string \<times> string) list" where
  "scene_textures = [(''textures/asphalt-floor.png'', ''floor''),
                     (''textures/concrete-stones.png'', ''atlas-stone''),
                     (''textures/concrete-walls.png'', ''walls''),
                     (''textures/rubber-bench.png'', ''bench''),
                     (''textures/metal-beams.png'', ''metal''),
                     (''textures/wood-base.png'', ''wood''),
                     (''textures/dumbbells.png'', ''dbell'')]"

section \<open>The model matrix of the specification\<close>

text \<open>
  The specification's formula for the Transform Composer, written over the same GLM
  operations: \<open>M = Translation(position) \<cdot> RotationZ \<cdot> RotationY \<cdot> RotationX \<cdot> Scale(scale)\<close>,
  every angle given in degrees and converted to radians. The product is read from
  left to right, as a chain of \<^verbatim>\<open>operator*\<close> is.
\<close>

definition Translation :: "glm \<Rightarrow> vec3 \<Rightarrow> mat4" where
  "Translation g position = glm_translate g position"

definition RotationX :: "glm \<Rightarrow> float \<Rightarrow> mat4" where
  "RotationX g degrees = glm_rotate g (glm_radians g degrees) (1, 0, 0)"

definition RotationY :: "glm \<Rightarrow> float \<Rightarrow> mat4" where
  "RotationY g degrees = glm_rotate g (glm_radians g degrees) (0, 1, 0)"

definition RotationZ :: "glm \<Rightarrow> float \<Rightarrow> mat4" where
  "RotationZ g degrees = glm_rotate g (glm_radians g degrees) (0, 0, 1)"

definition Scale :: "glm \<Rightarrow> vec3 \<Rightarrow> mat4" where
  "Scale g scale = glm_scale g scale"

definition compose :: "glm \<Rightarrow> vec3 \<Rightarrow> float \<times> float \<times> float \<Rightarrow> vec3 \<Rightarrow> mat4" where
  "compose g scale rotationDegrees position =
     (case rotationDegrees of
        (x, y, z) \<Rightarrow>
          mat4_mul g (mat4_mul g (mat4_mul g (mat4_mul g (Translation g position) (RotationZ g z))
            (RotationY g y)) (RotationX g x)) (Scale g scale))"

section \<open>Example inputs\<close>

text \<open>
  A scene manager before any registration: a shader interface that has received no
  write, sixteen unused table entries, and a driver that hands out the names 1, 2, 3, ...
\<close>

definition scene0 :: SceneManager where
  "scene0 = \<lparr>m_pShaderManager = Some [], m_basicMeshes = [], m_loadedTextures = 0,
             m_textureIDs = replicate 16 \<lparr>ID = 0, tag = ''''\<rparr>, m_objectMaterials = [],
             gl = \<lparr>gl_calls = [], gl_names = (\<lambda>k. of_nat (Suc k)), gl_generated = 0\<rparr>\<rparr>"

text \<open>
  An instance of the GLM parameters: the matrices that \<^verbatim>\<open>glm::scale\<close>, \<^verbatim>\<open>glm::rotate\<close>
  and \<^verbatim>\<open>glm::translate\<close> denote, column by column, and the matrix product, all over
  the reals and without rounding.
\<close>

fun vec4_add :: "vec4 \<Rightarrow> vec4 \<Rightarrow> vec4" where
  "vec4_add (a, b, c, d) (a', b', c', d') = (a + a', b + b', c + c', d + d')"

fun vec4_scale :: "float \<Rightarrow> vec4 \<Rightarrow> vec4" where
  "vec4_scale k (a, b, c, d) = (k * a, k * b, k * c, k * d)"

fun mat4_apply :: "mat4 \<Rightarrow> vec4 \<Rightarrow> vec4" where
  "mat4_apply (c0, c1, c2, c3) (x, y, z, w) =
     vec4_add (vec4_add (vec4_add (vec4_scale x c0) (vec4_scale y c1)) (vec4_scale z c2))
       (vec4_scale w c3)"

fun exact_mul :: "mat4 \<Rightarrow> mat4 \<Rightarrow> mat4" where
  "exact_mul m (b0, b1, b2, b3) = (mat4_apply m b0, mat4_apply m b1, mat4_apply m b2, mat4_apply m b3)"

fun exact_scale :: "vec3 \<Rightarrow> mat4" where
  "exact_scale (x, y, z) = ((x, 0, 0, 0), (0, y, 0, 0), (0, 0, z, 0), (0, 0, 0, 1))"

fun exact_translate :: "vec3 \<Rightarrow> mat4" where
  "exact_translate (x, y, z) = ((1, 0, 0, 0), (0, 1, 0, 0), (0, 0, 1, 0), (x, y, z, 1))"

fun exact_rotate :: "float \<Rightarrow> vec3 \<Rightarrow> mat4" where
  "exact_rotate a (vx, vy, vz) =
     (let c = cos a; s = sin a; n = sqrt (vx * vx + vy * vy + vz * vz);
          x = vx / n; y = vy / n; z = vz / n;
          tx = (1 - c) * x; ty = (1 - c) * y; tz = (1 - c) * z
      in ((c + tx * x, tx * y + s * z, tx * z - s * y, 0),
          (ty * x - s * z, c + ty * y, ty * z + s * x, 0),
          (tz * x + s * y, tz * y - s * x, c + tz * z, 0),
          (0, 0, 0, 1)))"

definition exact_glm :: glm where
  "exact_glm = \<lparr>glm_scale = exact_scale, glm_rotate = exact_rotate, glm_translate = exact_translate,
                glm_radians = (\<lambda>degrees. degrees * pi / 180), mat4_mul = exact_mul\<rparr>"

text \<open>
  Two decoders: one yields a one-channel image for every file, the other an RGB image.
  Three of the scene's textures, the state after registering them on \<open>scene0\<close>, and a
  list of seventeen textures.
\<close>

definition grey_decoder :: decoder where
  "grey_decoder filename = Some \<lparr>width = 1, height = 1, colorChannels = 1, pixels = [255]\<rparr>"

definition rgb_decoder :: decoder where
  "rgb_decoder filename = Some \<lparr>width = 1, height = 1, colorChannels = 3, pixels = [255, 0, 0]\<rparr>"

definition three_textures :: "(string \<times> string) list" where
  "three_textures = [(''textures/asphalt-floor.png'', ''floor''),
                     (''textures/concrete-stones.png'', ''atlas-stone''),
                     (''textures/concrete-walls.png'', ''walls'')]"

definition three_loaded :: SceneManager where
  "three_loaded = snd (projr (register_all rgb_decoder three_textures scene0))"

definition seventeen_textures :: "(string \<times> string) list" where
  "seventeen_textures = map (\<lambda>t. (''textures/'' @ t @ ''.png'', t))
     [''t00'', ''t01'', ''t02'', ''t03'', ''t04'', ''t05'', ''t06'', ''t07'', ''t08'',
      ''t09'', ''t10'', ''t11'', ''t12'', ''t13'', ''t14'', ''t15'', ''t16'']"

text \<open>A decoder for a directory without the texture files: every load fails.\<close>

definition no_files :: decoder where
  "no_files filename = None"

section \<open>Properties of FindMaterial\<close>

declare FindMaterial_loop.simps [simp del]

lemma FindMaterial_loop_no_match:
  "\<forall>j. index \<le> j \<and> j < length ms \<longrightarrow> material_tag (ms ! j) \<noteq> t \<Longrightarrow>
   snd (FindMaterial_loop ms t index False material) = (False, material)"
proof (induction "length ms - index" arbitrary: index)
  case 0
  then show ?case by (subst FindMaterial_loop.simps) simp
next
  case (Suc d)
  then have "index < length ms" by simp
  moreover from Suc.prems this have "material_tag (ms ! index) \<noteq> t" by simp
  moreover have "snd (FindMaterial_loop ms t (index + 1) False material) = (False, material)"
    using Suc.hyps Suc.prems by (intro Suc.hyps(1)) auto
  ultimately show ?case by (subst FindMaterial_loop.simps) simp
qed

lemma FindMaterial_loop_first_match:
  "k < length ms \<Longrightarrow> index \<le> k \<Longrightarrow> material_tag (ms ! k) = t \<Longrightarrow>
   \<forall>j. index \<le> j \<and> j < k \<longrightarrow> material_tag (ms ! j) \<noteq> t \<Longrightarrow>
   FindMaterial_loop ms t index False material =
     (k, True, material\<lparr>diffuseColor := diffuseColor (ms ! k),
                        specularColor := specularColor (ms ! k),
                        shininess := shininess (ms ! k)\<rparr>)"
proof (induction "k - index" arbitrary: index)
  case 0
  then have "index = k" by simp
  with 0 show ?case
    by (subst FindMaterial_loop.simps, simp, subst FindMaterial_loop.simps, simp)
next
  case (Suc d)
  then have "index < k" by simp
  with Suc.prems have ne: "material_tag (ms ! index) \<noteq> t" and lt: "index < length ms" by auto
  have "FindMaterial_loop ms t (index + 1) False material =
     (k, True, material\<lparr>diffuseColor := diffuseColor (ms ! k),
                        specularColor := specularColor (ms ! k),
                        shininess := shininess (ms ! k)\<rparr>)"
    using Suc.hyps Suc.prems \<open>index < k\<close> by (intro Suc.hyps(1)) auto
  with ne lt show ?case by (subst FindMaterial_loop.simps) simp
qed

text \<open>
  C1. \<open>FindMaterial\<close> returns \<open>False\<close> exactly when the material table is empty. On an
  empty table it returns \<open>False\<close> for every tag; on a non-empty table in which no entry
  has the requested tag it returns \<open>True\<close> and leaves the output material as it was.
\<close>

theorem FindMaterial_not_found_iff_empty:
  "(fst (FindMaterial st t material) = False \<longleftrightarrow> m_objectMaterials st = []) \<and>
   (m_objectMaterials st = [] \<longrightarrow> FindMaterial st t material = (False, material)) \<and>
   (m_objectMaterials st \<noteq> [] \<and> (\<forall>m \<in> set (m_objectMaterials st). material_tag m \<noteq> t) \<longrightarrow>
      FindMaterial st t material = (True, material))"
proof (intro conjI impI)
  show "fst (FindMaterial st t material) = False \<longleftrightarrow> m_objectMaterials st = []"
    by (simp add: FindMaterial_def split: prod.splits)
next
  assume "m_objectMaterials st = []"
  then show "FindMaterial st t material = (False, material)" by (simp add: FindMaterial_def)
next
  assume a: "m_objectMaterials st \<noteq> [] \<and> (\<forall>m \<in> set (m_objectMaterials st). material_tag m \<noteq> t)"
  then have "snd (FindMaterial_loop (m_objectMaterials st) t 0 False material) = (False, material)"
    by (intro FindMaterial_loop_no_match) simp
  with a show "FindMaterial st t material = (True, material)"
    by (auto simp: FindMaterial_def split: prod.splits)
qed

theorem FindMaterial_not_found_iff_empty_witness:
  "m_objectMaterials (DefineObjectMaterials scene0) \<noteq> [] \<and>
   ''glassMAT'' \<notin> material_tag ` set (m_objectMaterials (DefineObjectMaterials scene0)) \<and>
   FindMaterial (DefineObjectMaterials scene0) ''glassMAT'' woodMaterial = (True, woodMaterial) \<and>
   m_objectMaterials scene0 = [] \<and>
   FindMaterial scene0 ''stoneMAT'' woodMaterial = (False, woodMaterial)"
  using FindMaterial_not_found_iff_empty [of "DefineObjectMaterials scene0" "''glassMAT''" woodMaterial]
    FindMaterial_not_found_iff_empty [of scene0 "''stoneMAT''" woodMaterial]
  by (simp add: DefineObjectMaterials_def scene0_def stoneMAT_def metalMAT_def woodMaterial_def
      rubberMaterial_def)

lemma material_tags_distinct:
  "material_tag stoneMAT = ''stoneMAT''" "material_tag metalMAT = ''metalMAT''"
  "material_tag woodMaterial = ''woodMAT''" "material_tag rubberMaterial = ''rubberMAT''"
  by (simp_all add: stoneMAT_def metalMAT_def woodMaterial_def rubberMaterial_def)

lemma FindMaterial_first_match:
  assumes "k < length (m_objectMaterials st)"
    and "material_tag (m_objectMaterials st ! k) = t"
    and "t \<notin> material_tag ` set (take k (m_objectMaterials st))"
  shows "FindMaterial st t material =
     (True, material\<lparr>diffuseColor := diffuseColor (m_objectMaterials st ! k),
                     specularColor := specularColor (m_objectMaterials st ! k),
                     shininess := shininess (m_objectMaterials st ! k)\<rparr>)"
proof -
  have "FindMaterial_loop (m_objectMaterials st) t 0 False material =
     (k, True, material\<lparr>diffuseColor := diffuseColor (m_objectMaterials st ! k),
                     specularColor := specularColor (m_objectMaterials st ! k),
                     shininess := shininess (m_objectMaterials st ! k)\<rparr>)"
  proof (intro FindMaterial_loop_first_match allI impI)
    fix j assume "0 \<le> j \<and> j < k"
    then have "m_objectMaterials st ! j \<in> set (take k (m_objectMaterials st))"
      using assms(1) by (auto simp: in_set_conv_nth)
    with assms(3) show "material_tag (m_objectMaterials st ! j) \<noteq> t" by auto
  qed (use assms in auto)
  with assms(1) show ?thesis by (auto simp: FindMaterial_def)
qed

text \<open>
  C2, as stated, fails: a successful lookup copies \<open>diffuseColor\<close>, \<open>specularColor\<close> and
  \<open>shininess\<close> only. Looking up \<open>stoneMAT\<close> into a variable that holds the rubber
  material leaves the ambient colour and the ambient strength of rubber in it.
\<close>

theorem FindMaterial_defined_material_all_fields_counterexample:
  "fst (FindMaterial (DefineObjectMaterials scene0) (material_tag stoneMAT) rubberMaterial) = True \<and>
   ambientStrength (snd (FindMaterial (DefineObjectMaterials scene0) (material_tag stoneMAT) rubberMaterial))
     \<noteq> ambientStrength stoneMAT \<and>
   ambientColor (snd (FindMaterial (DefineObjectMaterials scene0) (material_tag stoneMAT) rubberMaterial))
     \<noteq> ambientColor stoneMAT \<and>
   snd (FindMaterial (DefineObjectMaterials scene0) (material_tag stoneMAT) rubberMaterial) \<noteq> stoneMAT"
proof -
  have "FindMaterial (DefineObjectMaterials scene0) (material_tag stoneMAT) rubberMaterial =
     (True, rubberMaterial\<lparr>diffuseColor := diffuseColor stoneMAT,
                     specularColor := specularColor stoneMAT,
                     shininess := shininess stoneMAT\<rparr>)"
    using FindMaterial_first_match [of 0 "DefineObjectMaterials scene0" "material_tag stoneMAT" rubberMaterial]
    by (simp add: DefineObjectMaterials_def scene0_def)
  then show ?thesis
    by (simp add: stoneMAT_def rubberMaterial_def)
qed

text \<open>
  C2, amended. For each of the four materials that \<open>DefineObjectMaterials\<close> appends to an
  empty table, \<open>FindMaterial\<close> with the material's tag returns \<open>True\<close>, and the output
  holds the \<open>diffuseColor\<close>, \<open>specularColor\<close> and \<open>shininess\<close> of the definition; its
  \<open>ambientColor\<close>, \<open>ambientStrength\<close> and tag are what they were before the call.
\<close>

theorem FindMaterial_defined_material:
  assumes "m_objectMaterials st = []"
    and "m \<in> set [stoneMAT, metalMAT, woodMaterial, rubberMaterial]"
  shows "FindMaterial (DefineObjectMaterials st) (material_tag m) material =
     (True, material\<lparr>diffuseColor := diffuseColor m,
                     specularColor := specularColor m,
                     shininess := shininess m\<rparr>)"
proof -
  let ?st = "DefineObjectMaterials st"
  have ms: "m_objectMaterials ?st = [stoneMAT, metalMAT, woodMaterial, rubberMaterial]"
    using assms(1) by (simp add: DefineObjectMaterials_def)
  from assms(2) consider "m = stoneMAT" | "m = metalMAT" | "m = woodMaterial" | "m = rubberMaterial"
    by auto
  then show ?thesis
  proof cases
    case 1
    then show ?thesis
      using FindMaterial_first_match [of 0 ?st "material_tag m" material] ms by simp
  next
    case 2
    then show ?thesis
      using FindMaterial_first_match [of 1 ?st "material_tag m" material] ms
      by (simp add: material_tags_distinct)
  next
    case 3
    then show ?thesis
      using FindMaterial_first_match [of 2 ?st "material_tag m" material] ms
      by (simp add: material_tags_distinct)
  next
    case 4
    then show ?thesis
      using FindMaterial_first_match [of 3 ?st "material_tag m" material] ms
      by (simp add: material_tags_distinct)
  qed
qed

theorem FindMaterial_defined_material_witness:
  "m_objectMaterials scene0 = [] \<and>
   metalMAT \<in> set [stoneMAT, metalMAT, woodMaterial, rubberMaterial] \<and>
   FindMaterial (DefineObjectMaterials scene0) ''metalMAT'' rubberMaterial =
     (True, \<lparr>ambientColor = (0.05, 0.05, 0.05), ambientStrength = 0.6,
             diffuseColor = (0.4, 0.4, 0.4), specularColor = (0.8, 0.8, 0.8),
             shininess = 15.0, material_tag = ''rubberMAT''\<rparr>)"
  using FindMaterial_defined_material [of scene0 metalMAT rubberMaterial]
  by (simp add: scene0_def metalMAT_def rubberMaterial_def)

section \<open>Properties of the shader operations\<close>

lemma SetShaderMaterial_null_shader:
  "m_pShaderManager st = None \<Longrightarrow> m_objectMaterials st \<noteq> [] \<Longrightarrow>
   SetShaderMaterial material0 materialTag st = Inl NullPointerDereference"
  by (auto simp: SetShaderMaterial_def FindMaterial_def shader_call_def and_then_def split: prod.splits)

lemma guarded_operations_null_shader:
  assumes "m_pShaderManager st = None"
  shows "SetTransformations g scaleXYZ x y z positionXYZ st = Inr st"
    and "SetShaderColor r gr b a st = Inr st"
    and "SetShaderTexture textureTag st = Inr st"
    and "SetTextureUVScale u v st = Inr st"
  using assms
  by (simp_all add: SetTransformations_def SetShaderColor_def SetShaderTexture_def
      SetTextureUVScale_def)

text \<open>
  C3 fails for \<open>SetShaderMaterial\<close>: with a null shader interface and the four materials
  defined, the call reaches \<^verbatim>\<open>m_pShaderManager->setVec3Value\<close>. The four other
  operations test the pointer first (\<open>guarded_operations_null_shader\<close>).
\<close>

theorem SetShaderMaterial_null_shader_dereference:
  "SetShaderMaterial rubberMaterial ''stoneMAT''
     (DefineObjectMaterials (scene0\<lparr>m_pShaderManager := None\<rparr>)) = Inl NullPointerDereference"
  by (rule SetShaderMaterial_null_shader) (simp_all add: DefineObjectMaterials_def)

text \<open>
  C4. With a shader interface attached, \<open>SetTransformations\<close> writes exactly one
  uniform, \<open>model\<close>, and its value is the matrix
  \<open>Translation(position) \<cdot> RotationZ(z) \<cdot> RotationY(y) \<cdot> RotationX(x) \<cdot> Scale(scale)\<close>
  with the angles converted from degrees to radians, for every scale, rotation triple
  and position.
\<close>

theorem SetTransformations_model_matrix:
  assumes "m_pShaderManager st = Some ws"
  shows "SetTransformations g scaleXYZ XrotationDegrees YrotationDegrees ZrotationDegrees positionXYZ st =
     Inr (st\<lparr>m_pShaderManager := Some (ws @
       [setMat4Value ''model''
          (compose g scaleXYZ (XrotationDegrees, YrotationDegrees, ZrotationDegrees) positionXYZ)])\<rparr>)"
  using assms
  by (simp add: SetTransformations_def shader_call_def compose_def Translation_def RotationX_def
      RotationY_def RotationZ_def Scale_def)

lemma compose_quarter_turn_about_X:
  "compose exact_glm (1, 1, 1) (90, 0, 0) (0, 0, 0) =
     ((1, 0, 0, 0), (0, 0, 1, 0), (0, - 1, 0, 0), (0, 0, 0, 1))"
  by (simp add: compose_def Translation_def RotationX_def
      RotationY_def RotationZ_def Scale_def exact_glm_def)

theorem SetTransformations_model_matrix_witness:
  "m_pShaderManager scene0 = Some [] \<and>
   SetTransformations exact_glm (1, 1, 1) 90 0 0 (0, 0, 0) scene0 =
     Inr (scene0\<lparr>m_pShaderManager := Some
       [setMat4Value ''model'' ((1, 0, 0, 0), (0, 0, 1, 0), (0, - 1, 0, 0), (0, 0, 0, 1))]\<rparr>) \<and>
   mat4_apply ((1, 0, 0, 0), (0, 0, 1, 0), (0, - 1, 0, 0), (0, 0, 0, 1)) (0, 0, 1, 1) = (0, - 1, 0, 1)"
  using SetTransformations_model_matrix [of scene0 "[]" exact_glm "(1, 1, 1)" 90 0 0 "(0, 0, 0)"]
  by (simp add: compose_quarter_turn_about_X) (simp add: scene0_def)

section \<open>Properties of the texture table\<close>

lemmas CreateGLTexture_unfold =
  CreateGLTexture_def register_texture_def gl_gen_def gl_issue_def Let_def

lemma TEXTURE_INFO_overwrite [simp]:
  "(e :: TEXTURE_INFO)\<lparr>ID := a, tag := t\<rparr> = \<lparr>ID = a, tag = t\<rparr>"
  by (cases e) simp

lemma CreateGLTexture_not_decoded:
  "stbi_load filename = None \<Longrightarrow> CreateGLTexture stbi_load filename t st = Inr (False, st)"
  by (simp add: CreateGLTexture_def)

lemma CreateGLTexture_False:
  assumes "CreateGLTexture stbi_load filename t st = Inr (False, st')"
  shows "m_loadedTextures st' = m_loadedTextures st \<and> m_textureIDs st' = m_textureIDs st \<and>
         m_objectMaterials st' = m_objectMaterials st \<and> m_pShaderManager st' = m_pShaderManager st \<and>
         m_basicMeshes st' = m_basicMeshes st"
  using assms by (auto simp: CreateGLTexture_unfold split: option.splits if_splits)

lemma CreateGLTexture_True:
  assumes "CreateGLTexture stbi_load filename t st = Inr (True, st')"
  shows "0 \<le> m_loadedTextures st \<and> m_loadedTextures st < int (length (m_textureIDs st)) \<and>
         m_loadedTextures st' = m_loadedTextures st + 1 \<and>
         m_textureIDs st' = (m_textureIDs st)[nat (m_loadedTextures st) :=
            \<lparr>ID = gl_names (gl st) (gl_generated (gl st)), tag = t\<rparr>] \<and>
         m_objectMaterials st' = m_objectMaterials st \<and> m_pShaderManager st' = m_pShaderManager st \<and>
         m_basicMeshes st' = m_basicMeshes st"
  using assms by (auto simp: CreateGLTexture_unfold split: option.splits if_splits)

lemma CreateGLTexture_supported:
  assumes "stbi_load filename = Some img" and "colorChannels img = 3 \<or> colorChannels img = 4"
  shows "CreateGLTexture stbi_load filename t st =
     (if 0 \<le> m_loadedTextures st \<and> m_loadedTextures st < int (length (m_textureIDs st))
      then Inr (True, snd (projr (CreateGLTexture stbi_load filename t st)))
      else Inl (ArrayIndexOutOfBounds (m_loadedTextures st)))"
  using assms by (auto simp: CreateGLTexture_unfold)

text \<open>
  C5. When the file decodes to an image whose channel count is neither 3 nor 4,
  \<open>CreateGLTexture\<close> returns \<open>False\<close>, and the number of registered textures and the
  whole table, hence every registered entry, are what they were: no entry is added.
\<close>

theorem CreateGLTexture_unsupported_channels:
  assumes "stbi_load filename = Some img"
    and "colorChannels img \<noteq> 3" and "colorChannels img \<noteq> 4"
  shows "\<exists>st'. CreateGLTexture stbi_load filename t st = Inr (False, st') \<and>
           m_loadedTextures st' = m_loadedTextures st \<and>
           m_textureIDs st' = m_textureIDs st \<and> registered st' = registered st"
  using assms by (simp add: CreateGLTexture_unfold registered_def)

theorem CreateGLTexture_unsupported_channels_witness:
  "grey_decoder ''textures/mask.png'' =
     Some \<lparr>width = 1, height = 1, colorChannels = 1, pixels = [255]\<rparr> \<and>
   fst (projr (CreateGLTexture grey_decoder ''textures/mask.png'' ''mask'' scene0)) = False \<and>
   m_loadedTextures (snd (projr (CreateGLTexture grey_decoder ''textures/mask.png'' ''mask'' scene0))) = 0 \<and>
   m_textureIDs (snd (projr (CreateGLTexture grey_decoder ''textures/mask.png'' ''mask'' scene0))) =
     m_textureIDs scene0"
  using CreateGLTexture_unsupported_channels [of grey_decoder "''textures/mask.png''"
      "\<lparr>width = 1, height = 1, colorChannels = 1, pixels = [255]\<rparr>" "''mask''" scene0]
  by (auto simp: grey_decoder_def scene0_def)

declare FindTextureSlot_loop.simps [simp del] FindTextureID_loop.simps [simp del]

lemma FindTextureSlot_loop_absent:
  assumes "m_loadedTextures st \<le> int (length (m_textureIDs st))" and "0 \<le> index"
    and "\<forall>j. index \<le> j \<and> j < m_loadedTextures st \<longrightarrow> tag (m_textureIDs st ! nat j) \<noteq> t"
  shows "FindTextureSlot_loop st t textureSlot index False = Inr textureSlot"
  using assms(2,3)
proof (induction "nat (m_loadedTextures st - index)" arbitrary: index)
  case 0
  then show ?case by (subst FindTextureSlot_loop.simps) simp
next
  case (Suc d)
  then have lt: "index < m_loadedTextures st" by linarith
  with Suc.prems have ne: "tag (m_textureIDs st ! nat index) \<noteq> t" by simp
  have rest: "FindTextureSlot_loop st t textureSlot (index + 1) False = Inr textureSlot"
    using Suc.hyps(2) Suc.prems by (intro Suc.hyps(1)) auto
  from lt assms(1) Suc.prems(1) have "texture_at st index = Inr (m_textureIDs st ! nat index)"
    by (simp add: texture_at_def)
  with lt ne rest show ?case by (subst FindTextureSlot_loop.simps) simp
qed

lemma FindTextureID_loop_absent:
  assumes "m_loadedTextures st \<le> int (length (m_textureIDs st))" and "0 \<le> index"
    and "\<forall>j. index \<le> j \<and> j < m_loadedTextures st \<longrightarrow> tag (m_textureIDs st ! nat j) \<noteq> t"
  shows "FindTextureID_loop st t textureID index False = Inr textureID"
  using assms(2,3)
proof (induction "nat (m_loadedTextures st - index)" arbitrary: index)
  case 0
  then show ?case by (subst FindTextureID_loop.simps) simp
next
  case (Suc d)
  then have lt: "index < m_loadedTextures st" by linarith
  with Suc.prems have ne: "tag (m_textureIDs st ! nat index) \<noteq> t" by simp
  have rest: "FindTextureID_loop st t textureID (index + 1) False = Inr textureID"
    using Suc.hyps(2) Suc.prems by (intro Suc.hyps(1)) auto
  from lt assms(1) Suc.prems(1) have "texture_at st index = Inr (m_textureIDs st ! nat index)"
    by (simp add: texture_at_def)
  with lt ne rest show ?case by (subst FindTextureID_loop.simps) simp
qed

lemma FindTextureSlot_loop_found:
  assumes "m_loadedTextures st \<le> int (length (m_textureIDs st))" and "0 \<le> index"
    and "index \<le> k" and "k < m_loadedTextures st" and "tag (m_textureIDs st ! nat k) = t"
    and "\<forall>j. index \<le> j \<and> j < k \<longrightarrow> tag (m_textureIDs st ! nat j) \<noteq> t"
  shows "FindTextureSlot_loop st t textureSlot index False = Inr k"
  using assms(2,3,6)
proof (induction "nat (k - index)" arbitrary: index textureSlot)
  case 0
  then have eq: "index = k" by simp
  from assms(1,4) 0 have at: "texture_at st k = Inr (m_textureIDs st ! nat k)"
    by (simp add: texture_at_def)
  have "FindTextureSlot_loop st t k k True = Inr k"
    by (subst FindTextureSlot_loop.simps) simp
  with at assms(4,5) eq show ?case by (subst FindTextureSlot_loop.simps) simp
next
  case (Suc d)
  then have lt: "index < k" by linarith
  with Suc.prems have ne: "tag (m_textureIDs st ! nat index) \<noteq> t" by simp
  have rest: "FindTextureSlot_loop st t textureSlot (index + 1) False = Inr k"
    using Suc.hyps(2) Suc.prems lt by (intro Suc.hyps(1)) auto
  from lt assms(1,4) Suc.prems(1) have "texture_at st index = Inr (m_textureIDs st ! nat index)"
    by (simp add: texture_at_def)
  with lt assms(4) ne rest show ?case by (subst FindTextureSlot_loop.simps) simp
qed

lemma texture_tags_nth:
  assumes "m_loadedTextures st \<le> int (length (m_textureIDs st))"
    and "0 \<le> j" and "j < m_loadedTextures st"
  shows "texture_tags st ! nat j = tag (m_textureIDs st ! nat j)"
  using assms by (simp add: texture_tags_def registered_def)

lemma length_texture_tags:
  "m_loadedTextures st \<le> int (length (m_textureIDs st)) \<Longrightarrow>
   length (texture_tags st) = nat (m_loadedTextures st)"
  by (simp add: texture_tags_def registered_def)

lemma absent_tag_entries:
  assumes "m_loadedTextures st \<le> int (length (m_textureIDs st))"
    and "t \<notin> set (texture_tags st)"
  shows "\<forall>j. 0 \<le> j \<and> j < m_loadedTextures st \<longrightarrow> tag (m_textureIDs st ! nat j) \<noteq> t"
proof (intro allI impI)
  fix j assume j: "0 \<le> j \<and> j < m_loadedTextures st"
  with assms(1) have "nat j < length (texture_tags st)" by (simp add: length_texture_tags)
  then have "texture_tags st ! nat j \<in> set (texture_tags st)" by simp
  with assms j show "tag (m_textureIDs st ! nat j) \<noteq> t" by (auto simp: texture_tags_nth)
qed

lemma FindTextureSlot_absent:
  assumes "m_loadedTextures st \<le> int (length (m_textureIDs st))"
    and "t \<notin> set (texture_tags st)"
  shows "FindTextureSlot st t = Inr (- 1)"
  unfolding FindTextureSlot_def
  using assms absent_tag_entries [OF assms] by (intro FindTextureSlot_loop_absent) auto

lemma FindTextureID_absent:
  assumes "m_loadedTextures st \<le> int (length (m_textureIDs st))"
    and "t \<notin> set (texture_tags st)"
  shows "FindTextureID st t = Inr (- 1)"
  unfolding FindTextureID_def
  using assms absent_tag_entries [OF assms] by (intro FindTextureID_loop_absent) auto

lemma FindTextureSlot_first:
  assumes le: "m_loadedTextures st \<le> int (length (m_textureIDs st))"
    and k: "k < length (texture_tags st)" and t: "texture_tags st ! k = t"
    and first: "t \<notin> set (take k (texture_tags st))"
  shows "FindTextureSlot st t = Inr (int k)"
  unfolding FindTextureSlot_def
proof (rule FindTextureSlot_loop_found [OF le])
  from k le show klt: "int k < m_loadedTextures st" by (simp add: length_texture_tags)
  with t le show "tag (m_textureIDs st ! nat (int k)) = t"
    using texture_tags_nth [of st "int k"] by simp
  show "\<forall>j. 0 \<le> j \<and> j < int k \<longrightarrow> tag (m_textureIDs st ! nat j) \<noteq> t"
  proof (intro allI impI)
    fix j assume j: "0 \<le> j \<and> j < int k"
    then have "nat j < k" by linarith
    with k have "texture_tags st ! nat j \<in> set (take k (texture_tags st))"
      by (auto simp: in_set_conv_nth intro!: exI [of _ "nat j"])
    moreover from j klt le have "texture_tags st ! nat j = tag (m_textureIDs st ! nat j)"
      by (intro texture_tags_nth) auto
    ultimately show "tag (m_textureIDs st ! nat j) \<noteq> t" using first by auto
  qed
qed simp_all

lemma nth_notin_take: "distinct xs \<Longrightarrow> i < length xs \<Longrightarrow> xs ! i \<notin> set (take i xs)"
  by (auto simp: in_set_conv_nth nth_eq_iff_index_eq)

lemma texture_tags_CreateGLTexture:
  assumes "CreateGLTexture stbi_load filename t st = Inr (True, st')"
  shows "texture_tags st' = texture_tags st @ [t]"
proof -
  let ?n = "nat (m_loadedTextures st)"
  from CreateGLTexture_True [OF assms]
  have n: "0 \<le> m_loadedTextures st" "?n < length (m_textureIDs st)"
    and m: "m_loadedTextures st' = m_loadedTextures st + 1"
    and a: "m_textureIDs st' = (m_textureIDs st)[?n :=
            \<lparr>ID = gl_names (gl st) (gl_generated (gl st)), tag = t\<rparr>]"
    by auto
  from n m have "nat (m_loadedTextures st') = Suc ?n" by simp
  with n a show ?thesis
    by (simp add: texture_tags_def registered_def take_Suc_conv_app_nth)
qed

lemma register_all_successful:
  assumes "register_all stbi_load regs st = Inr (bs, st')" and "set bs \<subseteq> {True}"
    and "m_loadedTextures st \<le> int (length (m_textureIDs st))"
  shows "texture_tags st' = texture_tags st @ map snd regs \<and>
         m_loadedTextures st' = m_loadedTextures st + int (length regs) \<and>
         m_loadedTextures st' \<le> int (length (m_textureIDs st')) \<and>
         length (m_textureIDs st') = length (m_textureIDs st) \<and>
         m_objectMaterials st' = m_objectMaterials st \<and> m_pShaderManager st' = m_pShaderManager st \<and>
         m_basicMeshes st' = m_basicMeshes st"
  using assms
proof (induction regs arbitrary: st bs)
  case Nil
  then show ?case by simp
next
  case (Cons r regs)
  obtain filename t where r: "r = (filename, t)" by (cases r)
  from Cons.prems(1) r obtain b st1 bs1 where
    c: "CreateGLTexture stbi_load filename t st = Inr (b, st1)" and
    rest: "register_all stbi_load regs st1 = Inr (bs1, st')" and bs: "bs = b # bs1"
    by (auto simp: and_then_def split: sum.splits prod.splits)
  from bs Cons.prems(2) have b: "b = True" and bs1: "set bs1 \<subseteq> {True}" by auto
  note t1 = CreateGLTexture_True [OF c [unfolded b]]
  from t1 have le1: "m_loadedTextures st1 \<le> int (length (m_textureIDs st1))" by simp
  from Cons.IH [OF rest bs1 le1] texture_tags_CreateGLTexture [OF c [unfolded b]] t1 r
  show ?case by simp
qed

lemma register_all_supported:
  assumes "\<forall>(filename, t) \<in> set regs. \<exists>img. stbi_load filename = Some img \<and>
             (colorChannels img = 3 \<or> colorChannels img = 4)"
    and "0 \<le> m_loadedTextures st" and "m_loadedTextures st \<le> int (length (m_textureIDs st))"
  shows "if m_loadedTextures st + int (length regs) \<le> int (length (m_textureIDs st))
         then \<exists>st'. register_all stbi_load regs st = Inr (replicate (length regs) True, st')
         else register_all stbi_load regs st = Inl (ArrayIndexOutOfBounds (int (length (m_textureIDs st))))"
  using assms
proof (induction regs arbitrary: st)
  case Nil
  then show ?case by simp
next
  case (Cons r regs)
  obtain filename t where r: "r = (filename, t)" by (cases r)
  with Cons.prems(1) obtain img where img: "stbi_load filename = Some img"
    "colorChannels img = 3 \<or> colorChannels img = 4" by auto
  show ?case
  proof (cases "m_loadedTextures st < int (length (m_textureIDs st))")
    case True
    with CreateGLTexture_supported [of stbi_load filename img t st] img Cons.prems(2)
    obtain st1 where c: "CreateGLTexture stbi_load filename t st = Inr (True, st1)" by auto
    note t1 = CreateGLTexture_True [OF c]
    have "if m_loadedTextures st1 + int (length regs) \<le> int (length (m_textureIDs st1))
         then \<exists>st'. register_all stbi_load regs st1 = Inr (replicate (length regs) True, st')
         else register_all stbi_load regs st1 = Inl (ArrayIndexOutOfBounds (int (length (m_textureIDs st1))))"
      using Cons.prems(1) t1 by (intro Cons.IH) auto
    with c t1 r show ?thesis by (auto simp: and_then_def)
  next
    case False
    with Cons.prems(3) have eq: "m_loadedTextures st = int (length (m_textureIDs st))" by simp
    with CreateGLTexture_supported [of stbi_load filename img t st] img
    have "CreateGLTexture stbi_load filename t st = Inl (ArrayIndexOutOfBounds (int (length (m_textureIDs st))))"
      by simp
    with eq r show ?thesis by (simp add: and_then_def)
  qed
qed

text \<open>
  C6. Starting from an empty table, after a sequence of registrations that all return
  \<open>True\<close> and carry pairwise distinct tags, the registered entries are the tags in
  registration order: the \<open>i\<close>-th registration (counted from 0) occupies slot \<open>i\<close>, and
  \<open>FindTextureSlot\<close> on its tag returns \<open>i\<close>.
\<close>

theorem registration_assigns_sequential_slots:
  assumes "m_loadedTextures st = 0"
    and "register_all stbi_load regs st = Inr (bs, st')" and "set bs \<subseteq> {True}"
    and "distinct (map snd regs)"
  shows "texture_tags st' = map snd regs \<and>
         (\<forall>i < length regs. FindTextureSlot st' (snd (regs ! i)) = Inr (int i))"
proof -
  from assms(1) have le: "m_loadedTextures st \<le> int (length (m_textureIDs st))" by simp
  from assms(1) have "texture_tags st = []" by (simp add: texture_tags_def registered_def)
  with register_all_successful [OF assms(2,3) le]
  have tags: "texture_tags st' = map snd regs"
    and le': "m_loadedTextures st' \<le> int (length (m_textureIDs st'))"
    by simp_all
  have "FindTextureSlot st' (snd (regs ! i)) = Inr (int i)" if i: "i < length regs" for i
  proof (rule FindTextureSlot_first [OF le'])
    from i tags show "i < length (texture_tags st')" by simp
    from i tags show "texture_tags st' ! i = snd (regs ! i)" by simp
    from assms(4) i show "snd (regs ! i) \<notin> set (take i (texture_tags st'))"
      unfolding tags using nth_notin_take [of "map snd regs" i] by simp
  qed
  with tags show ?thesis by simp
qed

lemma rgb_decoder_supported:
  "\<forall>(filename, t) \<in> set regs. \<exists>img. rgb_decoder filename = Some img \<and>
      (colorChannels img = 3 \<or> colorChannels img = 4)"
  by (auto simp: rgb_decoder_def)

lemma scene0_fields:
  "m_loadedTextures scene0 = 0" "length (m_textureIDs scene0) = 16"
  "m_pShaderManager scene0 = Some []" "m_objectMaterials scene0 = []" "m_basicMeshes scene0 = []"
  "texture_tags scene0 = []"
  by (simp_all add: scene0_def texture_tags_def registered_def)

lemma length_example_textures:
  "length three_textures = 3" "length seventeen_textures = 17"
  by (simp_all add: three_textures_def seventeen_textures_def)

lemma three_loaded_facts:
  "register_all rgb_decoder three_textures scene0 = Inr ([True, True, True], three_loaded)"
  "texture_tags three_loaded = [''floor'', ''atlas-stone'', ''walls'']"
  "m_loadedTextures three_loaded = 3"
  "length (m_textureIDs three_loaded) = 16"
  "m_pShaderManager three_loaded = Some []"
proof -
  from register_all_supported [OF rgb_decoder_supported, of scene0 three_textures]
  obtain st' where "register_all rgb_decoder three_textures scene0 = Inr (replicate 3 True, st')"
    by (auto simp: scene0_fields length_example_textures)
  then show r: "register_all rgb_decoder three_textures scene0 = Inr ([True, True, True], three_loaded)"
    by (simp add: three_loaded_def numeral_3_eq_3)
  from register_all_successful [OF r]
  show "texture_tags three_loaded = [''floor'', ''atlas-stone'', ''walls'']"
    "m_loadedTextures three_loaded = 3"
    "length (m_textureIDs three_loaded) = 16"
    "m_pShaderManager three_loaded = Some []"
    by (simp_all add: scene0_fields three_textures_def)
qed

theorem registration_assigns_sequential_slots_witness:
  "m_loadedTextures scene0 = 0 \<and>
   register_all rgb_decoder three_textures scene0 = Inr ([True, True, True], three_loaded) \<and>
   distinct (map snd three_textures) \<and>
   texture_tags three_loaded = [''floor'', ''atlas-stone'', ''walls''] \<and>
   FindTextureSlot three_loaded ''floor'' = Inr 0 \<and>
   FindTextureSlot three_loaded ''atlas-stone'' = Inr 1 \<and>
   FindTextureSlot three_loaded ''walls'' = Inr 2"
proof -
  have d: "distinct (map snd three_textures)" and z: "m_loadedTextures scene0 = 0"
    by (simp_all add: three_textures_def scene0_fields)
  have s: "\<forall>i < length three_textures.
      FindTextureSlot three_loaded (snd (three_textures ! i)) = Inr (int i)"
    using registration_assigns_sequential_slots [OF z three_loaded_facts(1) _ d] by simp
  from s [rule_format, of 0] s [rule_format, of 1] s [rule_format, of 2] d z three_loaded_facts(1,2)
  show ?thesis by (simp add: three_textures_def)
qed

text \<open>
  C7. For a tag that no registered entry carries, \<open>FindTextureSlot\<close> and
  \<open>FindTextureID\<close> return \<open>-1\<close> and raise no error, and \<open>SetShaderTexture\<close> on an
  attached shader interface still writes \<open>bUseTexture = true\<close> and then passes \<open>-1\<close> to
  the sampler uniform \<open>objectTexture\<close>.
\<close>

theorem unregistered_tag_yields_sentinel:
  assumes "m_loadedTextures st \<le> int (length (m_textureIDs st))"
    and "t \<notin> set (texture_tags st)"
  shows "FindTextureSlot st t = Inr (- 1) \<and> FindTextureID st t = Inr (- 1) \<and>
         (\<forall>ws. m_pShaderManager st = Some ws \<longrightarrow>
            SetShaderTexture t st =
              Inr (st\<lparr>m_pShaderManager := Some (ws @ [setIntValue ''bUseTexture'' 1,
                                                     setSampler2DValue ''objectTexture'' (- 1)])\<rparr>))"
proof (intro conjI allI impI)
  show "FindTextureSlot st t = Inr (- 1)" by (rule FindTextureSlot_absent [OF assms])
  show "FindTextureID st t = Inr (- 1)" by (rule FindTextureID_absent [OF assms])
next
  fix ws assume ws: "m_pShaderManager st = Some ws"
  let ?st1 = "st\<lparr>m_pShaderManager := Some (ws @ [setIntValue ''bUseTexture'' 1])\<rparr>"
  have "FindTextureSlot ?st1 t = Inr (- 1)"
    using assms by (intro FindTextureSlot_absent) (simp_all add: texture_tags_def registered_def)
  with ws show "SetShaderTexture t st =
      Inr (st\<lparr>m_pShaderManager := Some (ws @ [setIntValue ''bUseTexture'' 1,
                                             setSampler2DValue ''objectTexture'' (- 1)])\<rparr>)"
    by (simp add: SetShaderTexture_def shader_call_def and_then_def)
qed

theorem unregistered_tag_yields_sentinel_witness:
  "m_loadedTextures three_loaded \<le> int (length (m_textureIDs three_loaded)) \<and>
   ''marble'' \<notin> set (texture_tags three_loaded) \<and>
   FindTextureSlot three_loaded ''marble'' = Inr (- 1) \<and>
   FindTextureID three_loaded ''marble'' = Inr (- 1) \<and>
   m_pShaderManager three_loaded = Some [] \<and>
   SetShaderTexture ''marble'' three_loaded =
     Inr (three_loaded\<lparr>m_pShaderManager := Some [setIntValue ''bUseTexture'' 1,
                                                 setSampler2DValue ''objectTexture'' (- 1)]\<rparr>)"
  using unregistered_tag_yields_sentinel [of three_loaded "''marble''"] three_loaded_facts(2-5)
  by simp

text \<open>
  C8 fails on the code: \<open>CreateGLTexture\<close> has no cap. Sixteen registrations of
  decodable images fill the table; the seventeenth writes the entry with index 16,
  outside the sixteen-element array.
\<close>

theorem seventeenth_registration_out_of_bounds:
  "map_sum id fst (register_all rgb_decoder (take 16 seventeen_textures) scene0) =
     Inr (replicate 16 True) \<and>
   register_all rgb_decoder seventeen_textures scene0 = Inl (ArrayIndexOutOfBounds 16)"
proof
  from register_all_supported [OF rgb_decoder_supported, of scene0 "take 16 seventeen_textures"]
  show "map_sum id fst (register_all rgb_decoder (take 16 seventeen_textures) scene0) =
     Inr (replicate 16 True)"
    by (auto simp: scene0_fields length_example_textures)
  from register_all_supported [OF rgb_decoder_supported, of scene0 seventeen_textures]
  show "register_all rgb_decoder seventeen_textures scene0 = Inl (ArrayIndexOutOfBounds 16)"
    by (simp add: scene0_fields length_example_textures)
qed

section \<open>Properties of scene preparation and teardown\<close>

declare BindGLTextures_loop.simps [simp del] DestroyGLTextures_loop.simps [simp del]

lemma BindGLTextures_loop_frame:
  assumes "m_loadedTextures st \<le> int (length (m_textureIDs st))" and "0 \<le> i"
  shows "\<exists>st'. BindGLTextures_loop st i = Inr st' \<and>
           m_loadedTextures st' = m_loadedTextures st \<and> m_textureIDs st' = m_textureIDs st \<and>
           m_objectMaterials st' = m_objectMaterials st \<and>
           m_pShaderManager st' = m_pShaderManager st \<and> m_basicMeshes st' = m_basicMeshes st"
  using assms
proof (induction "nat (m_loadedTextures st - i)" arbitrary: st i)
  case 0
  then show ?case by (subst BindGLTextures_loop.simps) simp
next
  case (Suc d)
  then have lt: "i < m_loadedTextures st" by linarith
  with Suc.prems have at: "texture_at st i = Inr (m_textureIDs st ! nat i)"
    by (simp add: texture_at_def)
  let ?st1 = "gl_issue (glBindTexture GL_TEXTURE_2D (ID (m_textureIDs st ! nat i)))
                (gl_issue (glActiveTexture i) st)"
  have "\<exists>st'. BindGLTextures_loop ?st1 (i + 1) = Inr st' \<and>
           m_loadedTextures st' = m_loadedTextures ?st1 \<and> m_textureIDs st' = m_textureIDs ?st1 \<and>
           m_objectMaterials st' = m_objectMaterials ?st1 \<and>
           m_pShaderManager st' = m_pShaderManager ?st1 \<and> m_basicMeshes st' = m_basicMeshes ?st1"
    using Suc.hyps(2) Suc.prems by (intro Suc.hyps(1)) (auto simp: gl_issue_def)
  with lt at show ?case
    by (subst BindGLTextures_loop.simps) (auto simp: gl_issue_def)
qed

lemma LoadSceneTextures_register_all:
  "LoadSceneTextures stbi_load st =
     and_then (register_all stbi_load scene_textures st) (\<lambda>(bs, st'). BindGLTextures st')"
  by (simp add: LoadSceneTextures_def scene_textures_def and_then_def
      split: sum.splits prod.splits)

lemma SetupSceneLights_attached:
  assumes "m_pShaderManager st = Some ws"
  shows "SetupSceneLights st = Inr (st\<lparr>m_pShaderManager := Some (ws @
       [setBoolValue ''bUseLighting'' True,
        setVec3Value ''pointLights[0].position'' (16.0, 25.0, 1.5),
        setVec3Value ''pointLights[0].ambient'' (0.35, 0.35, 0.35),
        setVec3Value ''pointLights[0].diffuse'' (0.7, 0.7, 0.8),
        setVec3Value ''pointLights[0].specular'' (0.5, 0.5, 0.6),
        setBoolValue ''pointLights[0].bActive'' True,
        setVec3Value ''pointLights[1].position'' (- 14.0, 25.0, - 10.0),
        setVec3Value ''pointLights[1].ambient'' (0.35, 0.35, 0.35),
        setVec3Value ''pointLights[1].diffuse'' (0.7, 0.7, 0.8),
        setVec3Value ''pointLights[1].specular'' (0.5, 0.5, 0.6),
        setBoolValue ''pointLights[1].bActive'' True])\<rparr>)"
  using assms by (simp add: SetupSceneLights_def shader_call_def and_then_def)

lemma PrepareScene_after_loading:
  assumes "LoadSceneTextures stbi_load st = Inr st1" and "m_pShaderManager st1 = Some []"
    and "m_objectMaterials st1 = []"
  shows "\<exists>st'. PrepareScene stbi_load st = Inr st' \<and> texture_tags st' = texture_tags st1 \<and>
           material_tags st' = [''stoneMAT'', ''metalMAT'', ''woodMAT'', ''rubberMAT''] \<and>
           active_point_lights st' = [''pointLights[0].bActive'', ''pointLights[1].bActive'']"
proof -
  let ?st2 = "DefineObjectMaterials st1"
  from assms(2) have "m_pShaderManager ?st2 = Some []" by (simp add: DefineObjectMaterials_def)
  note lights = SetupSceneLights_attached [OF this]
  show ?thesis
    unfolding PrepareScene_def assms(1) and_then_def sum.case lights
    using assms(3)
    by (simp add: texture_tags_def registered_def material_tags_def active_point_lights_def
        bActive_uniforms_def DefineObjectMaterials_def material_tags_distinct)
qed

text \<open>
  C9, as stated, fails: which textures \<open>PrepareScene\<close> registers depends on the files.
  When no texture file can be loaded, every \<open>CreateGLTexture\<close> returns \<open>False\<close>,
  \<open>LoadSceneTextures\<close> ignores the results, and the table stays empty.
\<close>

theorem PrepareScene_without_files_counterexample:
  "map_sum id texture_tags (PrepareScene no_files scene0) = Inr [] \<and>
   map_sum id texture_tags (PrepareScene no_files scene0) \<noteq>
     Inr [''floor'', ''atlas-stone'', ''walls'', ''bench'', ''metal'', ''wood'', ''dbell'']"
proof -
  have "BindGLTextures scene0 = Inr scene0"
    unfolding BindGLTextures_def by (subst BindGLTextures_loop.simps) (simp add: scene0_fields)
  then have l: "LoadSceneTextures no_files scene0 = Inr scene0"
    by (simp add: LoadSceneTextures_def CreateGLTexture_not_decoded no_files_def and_then_def)
  from PrepareScene_after_loading [OF l] obtain st' where
    "PrepareScene no_files scene0 = Inr st'" "texture_tags st' = texture_tags scene0"
    by (auto simp: scene0_fields)
  then show ?thesis by (simp add: scene0_fields)
qed

text \<open>
  C9, amended. Starting from the initial empty state with a fresh shader interface
  attached, if each of the seven texture files decodes to an image with 3 or 4
  channels, then \<open>PrepareScene\<close> returns, the registered texture tags are exactly
  \<open>floor\<close>, \<open>atlas-stone\<close>, \<open>walls\<close>, \<open>bench\<close>, \<open>metal\<close>, \<open>wood\<close>, \<open>dbell\<close>, the material tags
  are exactly \<open>stoneMAT\<close>, \<open>metalMAT\<close>, \<open>woodMAT\<close>, \<open>rubberMAT\<close>, and exactly the point
  lights 0 and 1 are set active.
\<close>

theorem PrepareScene_registry_contents:
  assumes "empty_registry st" and "m_pShaderManager st = Some []"
    and "\<forall>(filename, t) \<in> set scene_textures. \<exists>img. stbi_load filename = Some img \<and>
           (colorChannels img = 3 \<or> colorChannels img = 4)"
  shows "\<exists>st'. PrepareScene stbi_load st = Inr st' \<and>
           texture_tags st' = [''floor'', ''atlas-stone'', ''walls'', ''bench'', ''metal'', ''wood'', ''dbell''] \<and>
           material_tags st' = [''stoneMAT'', ''metalMAT'', ''woodMAT'', ''rubberMAT''] \<and>
           active_point_lights st' = [''pointLights[0].bActive'', ''pointLights[1].bActive'']"
proof -
  from assms(1) have z: "m_loadedTextures st = 0" and len: "length (m_textureIDs st) = 16"
    and mats: "m_objectMaterials st = []"
    by (simp_all add: empty_registry_def MAX_TEXTURES_def)
  have n: "length scene_textures = 7" by (simp add: scene_textures_def)
  from register_all_supported [OF assms(3), of st] z len n
  obtain st1 where r: "register_all stbi_load scene_textures st = Inr (replicate 7 True, st1)"
    by auto
  from z have "texture_tags st = []" by (simp add: texture_tags_def registered_def)
  with register_all_successful [OF r] z len mats assms(2)
  have st1: "texture_tags st1 = map snd scene_textures"
    "m_loadedTextures st1 \<le> int (length (m_textureIDs st1))"
    "m_objectMaterials st1 = []" "m_pShaderManager st1 = Some []"
    by simp_all
  from BindGLTextures_loop_frame [OF st1(2), of 0] obtain st2 where
    b: "BindGLTextures st1 = Inr st2" and st2: "m_loadedTextures st2 = m_loadedTextures st1"
    "m_textureIDs st2 = m_textureIDs st1" "m_objectMaterials st2 = m_objectMaterials st1"
    "m_pShaderManager st2 = m_pShaderManager st1"
    by (auto simp: BindGLTextures_def)
  from r b have l: "LoadSceneTextures stbi_load st = Inr st2"
    by (simp add: LoadSceneTextures_register_all and_then_def)
  from st2 have "texture_tags st2 = texture_tags st1" by (simp add: texture_tags_def registered_def)
  with PrepareScene_after_loading [OF l] st1 st2 show ?thesis
    by (auto simp: scene_textures_def)
qed

theorem PrepareScene_registry_contents_witness:
  "empty_registry scene0 \<and> m_pShaderManager scene0 = Some [] \<and>
   list_all (\<lambda>(filename, t). rgb_decoder filename \<noteq> None) scene_textures \<and>
   map_sum id texture_tags (PrepareScene rgb_decoder scene0) =
     Inr [''floor'', ''atlas-stone'', ''walls'', ''bench'', ''metal'', ''wood'', ''dbell''] \<and>
   map_sum id material_tags (PrepareScene rgb_decoder scene0) =
     Inr [''stoneMAT'', ''metalMAT'', ''woodMAT'', ''rubberMAT''] \<and>
   map_sum id active_point_lights (PrepareScene rgb_decoder scene0) =
     Inr [''pointLights[0].bActive'', ''pointLights[1].bActive'']"
proof -
  have e: "empty_registry scene0"
    by (simp add: empty_registry_def scene0_fields MAX_TEXTURES_def)
  have d: "list_all (\<lambda>(filename, t). rgb_decoder filename \<noteq> None) scene_textures"
    by (simp add: list_all_iff rgb_decoder_def split: prod.splits)
  from PrepareScene_registry_contents [OF e scene0_fields(3) rgb_decoder_supported]
  show ?thesis using e d by (auto simp: scene0_fields)
qed

lemma DestroyGLTextures_loop_effect:
  assumes "m_loadedTextures st \<le> int (length (m_textureIDs st))" and "0 \<le> i"
  shows "\<exists>st'. DestroyGLTextures_loop st i = Inr st' \<and>
           m_loadedTextures st' = m_loadedTextures st \<and>
           map tag (m_textureIDs st') = map tag (m_textureIDs st) \<and>
           (\<forall>j < length (m_textureIDs st). ID (m_textureIDs st' ! j) =
              (if i \<le> int j \<and> int j < m_loadedTextures st
               then gl_names (gl st) (gl_generated (gl st) + (j - nat i))
               else ID (m_textureIDs st ! j))) \<and>
           gl_calls (gl st') = gl_calls (gl st) @
              map (\<lambda>k. glGenTextures (gl_names (gl st) (gl_generated (gl st) + k)))
                [0..<nat (m_loadedTextures st - i)] \<and>
           m_objectMaterials st' = m_objectMaterials st \<and>
           m_pShaderManager st' = m_pShaderManager st \<and> m_basicMeshes st' = m_basicMeshes st"
  using assms
proof (induction "nat (m_loadedTextures st - i)" arbitrary: st i)
  case 0
  then show ?case by (subst DestroyGLTextures_loop.simps) auto
next
  case (Suc d)
  then have lt: "i < m_loadedTextures st" by linarith
  with Suc.prems have inb: "nat i < length (m_textureIDs st)"
    and inb': "i < int (length (m_textureIDs st))" by linarith+
  let ?n = "gl_names (gl st) (gl_generated (gl st))"
  let ?st1 = "st\<lparr>gl := (gl st)\<lparr>gl_calls := gl_calls (gl st) @ [glGenTextures ?n],
                                 gl_generated := gl_generated (gl st) + 1\<rparr>,
                m_textureIDs := (m_textureIDs st)[nat i := (m_textureIDs st ! nat i)\<lparr>ID := ?n\<rparr>]\<rparr>"
  have d: "d = nat (m_loadedTextures ?st1 - (i + 1))" using Suc.hyps(2) by simp
  have step: "DestroyGLTextures_loop st i = DestroyGLTextures_loop ?st1 (i + 1)"
    using lt inb' Suc.prems(2)
    by (subst DestroyGLTextures_loop.simps) (simp add: gl_gen_def Let_def)
  from Suc.hyps(1) [OF d] Suc.prems obtain st' where
    r: "DestroyGLTextures_loop ?st1 (i + 1) = Inr st'" and
    m: "m_loadedTextures st' = m_loadedTextures st" and
    tags: "map tag (m_textureIDs st') = map tag ((m_textureIDs st)[nat i := (m_textureIDs st ! nat i)\<lparr>ID := ?n\<rparr>])" and
    ids: "\<forall>j < length (m_textureIDs st). ID (m_textureIDs st' ! j) =
              (if i + 1 \<le> int j \<and> int j < m_loadedTextures st
               then gl_names (gl st) (gl_generated (gl st) + 1 + (j - nat (i + 1)))
               else ID ((m_textureIDs st)[nat i := (m_textureIDs st ! nat i)\<lparr>ID := ?n\<rparr>] ! j))" and
    calls: "gl_calls (gl st') = (gl_calls (gl st) @ [glGenTextures ?n]) @
              map (\<lambda>k. glGenTextures (gl_names (gl st) (gl_generated (gl st) + 1 + k)))
                [0..<d]" and
    frame: "m_objectMaterials st' = m_objectMaterials st"
           "m_pShaderManager st' = m_pShaderManager st" "m_basicMeshes st' = m_basicMeshes st"
    using d by auto
  have t: "map tag (m_textureIDs st') = map tag (m_textureIDs st)"
    using tags inb by (auto simp: map_update list_eq_iff_nth_eq nth_list_update)
  have c: "gl_calls (gl st') = gl_calls (gl st) @
              map (\<lambda>k. glGenTextures (gl_names (gl st) (gl_generated (gl st) + k)))
                [0..<Suc d]"
    unfolding calls by (simp add: upt_conv_Cons map_Suc_upt [symmetric] del: upt_Suc)
  have i: "ID (m_textureIDs st' ! j) =
              (if i \<le> int j \<and> int j < m_loadedTextures st
               then gl_names (gl st) (gl_generated (gl st) + (j - nat i))
               else ID (m_textureIDs st ! j))" if j: "j < length (m_textureIDs st)" for j
  proof (cases "j = nat i")
    case True
    with ids [rule_format, OF j] j Suc.prems(2) lt show ?thesis by simp
  next
    case False
    show ?thesis
    proof (cases "i + 1 \<le> int j \<and> int j < m_loadedTextures st")
      case True
      then have e: "gl_generated (gl st) + 1 + (j - nat (i + 1)) = gl_generated (gl st) + (j - nat i)"
        and c: "i \<le> int j \<and> int j < m_loadedTextures st"
        using Suc.prems(2) by linarith+
      from ids [rule_format, OF j] True
      have "ID (m_textureIDs st' ! j) =
          gl_names (gl st) (gl_generated (gl st) + 1 + (j - nat (i + 1)))"
        by (simp only: if_True simp_thms)
      with e c show ?thesis by (simp only: if_True simp_thms)
    next
      case F: False
      with False Suc.prems(2) have n: "\<not> (i \<le> int j \<and> int j < m_loadedTextures st)"
        by linarith
      from ids [rule_format, OF j] F
      have "ID (m_textureIDs st' ! j) =
          ID ((m_textureIDs st)[nat i := (m_textureIDs st ! nat i)\<lparr>ID := ?n\<rparr>] ! j)"
        by (simp only: if_False)
      also from False have "\<dots> = ID (m_textureIDs st ! j)" by simp
      finally show ?thesis using n by (simp only: if_False)
    qed
  qed
  from step r m t c i frame Suc.hyps(2) show ?case by simp
qed

lemma CreateGLTexture_True_gl:
  assumes "CreateGLTexture stbi_load filename t st = Inr (True, st')"
  shows "gl_names (gl st') = gl_names (gl st) \<and> gl_generated (gl st') = gl_generated (gl st) + 1"
  using assms by (auto simp: CreateGLTexture_unfold split: option.splits if_splits)

lemma register_all_successful_gl:
  assumes "register_all stbi_load regs st = Inr (bs, st')" and "set bs \<subseteq> {True}"
  shows "gl_names (gl st') = gl_names (gl st) \<and>
         gl_generated (gl st') = gl_generated (gl st) + length regs"
  using assms
proof (induction regs arbitrary: st bs)
  case Nil
  then show ?case by simp
next
  case (Cons r regs)
  obtain filename t where r: "r = (filename, t)" by (cases r)
  from Cons.prems(1) r obtain b st1 bs1 where
    c: "CreateGLTexture stbi_load filename t st = Inr (b, st1)" and
    rest: "register_all stbi_load regs st1 = Inr (bs1, st')" and bs: "bs = b # bs1"
    by (auto simp: and_then_def split: sum.splits prod.splits)
  from bs Cons.prems(2) have b: "b = True" and bs1: "set bs1 \<subseteq> {True}" by auto
  from Cons.IH [OF rest bs1] CreateGLTexture_True_gl [OF c [unfolded b]]
  show ?case by simp
qed

text \<open>
  C10. For every table whose count lies within the array, \<open>DestroyGLTextures\<close> returns
  and leaves the count and every entry's tag as they were. It issues one
  \<^verbatim>\<open>glGenTextures\<close> call per registered entry, in slot order, and nothing else; each
  registered entry's handle is overwritten with the name that its call generated, and
  no \<^verbatim>\<open>glDeleteTextures\<close> call is issued.
\<close>

theorem DestroyGLTextures_regenerates_handles:
  assumes "m_loadedTextures st \<le> int (length (m_textureIDs st))"
  shows "\<exists>st'. DestroyGLTextures st = Inr st' \<and>
           m_loadedTextures st' = m_loadedTextures st \<and>
           map tag (m_textureIDs st') = map tag (m_textureIDs st) \<and>
           texture_IDs st' = map (\<lambda>k. gl_names (gl st) (gl_generated (gl st) + k))
                               [0..<nat (m_loadedTextures st)] \<and>
           gl_calls (gl st') = gl_calls (gl st) @ gl_calls_since st st' \<and>
           gl_calls_since st st' = map glGenTextures (texture_IDs st') \<and>
           (\<forall>n. glDeleteTextures n \<notin> set (gl_calls_since st st'))"
proof -
  from DestroyGLTextures_loop_effect [OF assms, of 0] obtain st' where
    r: "DestroyGLTextures st = Inr st'" and
    m: "m_loadedTextures st' = m_loadedTextures st" and
    tags: "map tag (m_textureIDs st') = map tag (m_textureIDs st)" and
    ids: "\<forall>j < length (m_textureIDs st). ID (m_textureIDs st' ! j) =
              (if 0 \<le> int j \<and> int j < m_loadedTextures st
               then gl_names (gl st) (gl_generated (gl st) + (j - nat 0))
               else ID (m_textureIDs st ! j))" and
    calls: "gl_calls (gl st') = gl_calls (gl st) @
              map (\<lambda>k. glGenTextures (gl_names (gl st) (gl_generated (gl st) + k)))
                [0..<nat (m_loadedTextures st - 0)]"
    unfolding DestroyGLTextures_def by blast
  from tags have len: "length (m_textureIDs st') = length (m_textureIDs st)"
    by (rule map_eq_imp_length_eq)
  have i: "texture_IDs st' = map (\<lambda>k. gl_names (gl st) (gl_generated (gl st) + k))
                               [0..<nat (m_loadedTextures st)]"
    using assms m len ids by (auto simp: texture_IDs_def registered_def list_eq_iff_nth_eq)
  have s: "gl_calls_since st st' = map glGenTextures (texture_IDs st')"
    unfolding i by (simp add: gl_calls_since_def calls)
  from r m tags i s calls show ?thesis
    by (auto simp: gl_calls_since_def)
qed

theorem DestroyGLTextures_regenerates_handles_witness:
  "m_loadedTextures three_loaded \<le> int (length (m_textureIDs three_loaded)) \<and>
   map_sum id m_loadedTextures (DestroyGLTextures three_loaded) = Inr 3 \<and>
   map_sum id texture_tags (DestroyGLTextures three_loaded) =
     Inr [''floor'', ''atlas-stone'', ''walls''] \<and>
   map_sum id texture_IDs (DestroyGLTextures three_loaded) = Inr [4, 5, 6] \<and>
   map_sum id (gl_calls_since three_loaded) (DestroyGLTextures three_loaded) =
     Inr [glGenTextures 4, glGenTextures 5, glGenTextures 6]"
proof -
  have le: "m_loadedTextures three_loaded \<le> int (length (m_textureIDs three_loaded))"
    by (simp add: three_loaded_facts)
  from register_all_successful_gl [OF three_loaded_facts(1)]
  have g: "gl_names (gl three_loaded) = (\<lambda>k. of_nat (Suc k))" "gl_generated (gl three_loaded) = 3"
    by (simp_all add: scene0_def three_textures_def)
  have u: "[0..<3] = [0, 1, 2]" by code_simp
  from DestroyGLTextures_regenerates_handles [OF le] obtain st' where
    r: "DestroyGLTextures three_loaded = Inr st'" and
    m: "m_loadedTextures st' = 3" and
    tags: "map tag (m_textureIDs st') = map tag (m_textureIDs three_loaded)" and
    ids: "texture_IDs st' = [4, 5, 6]" and
    calls: "gl_calls_since three_loaded st' = map glGenTextures (texture_IDs st')"
    by (auto simp: three_loaded_facts g u)
  from tags m have "texture_tags st' = texture_tags three_loaded"
    by (simp add: texture_tags_def registered_def three_loaded_facts take_map [symmetric])
  with r m ids calls le show ?thesis by (simp add: three_loaded_facts)
qed

end
